theory Spec2Isabelle
  imports Complex_Main
begin

unbundle bit_operations_syntax

section \<open>Python values used by the parsers\<close>

text \<open>
  The two parser modules \<^verbatim>\<open>dxf_parser.py\<close> and \<^verbatim>\<open>svg_parser.py\<close> are embedded
  function by function. Coordinates are Python floats; they are modelled as reals
  (no rounding, no NaN), except where a float is converted with \<^verbatim>\<open>int(...)\<close> outside
  any \<^verbatim>\<open>try\<close>: there the special values are part of the model, because
  \<^verbatim>\<open>int\<close> raises on them. Strings are lists of 8-bit characters. Every call into a
  library (ezdxf, svgpathtools, \<^verbatim>\<open>re\<close>, \<^verbatim>\<open>math\<close>, the file system) is an
  oracle whose outcome is part of the input: a value, or an exception.

  Six lines of the two modules hold a number with a blank inside (\<^verbatim>\<open>1. 0\<close>,
  \<^verbatim>\<open>96. 0\<close>), which is not Python: line 18 of \<^verbatim>\<open>dxf_parser.py\<close> and lines 48, 51,
  58, 80 and 83 of \<^verbatim>\<open>svg_parser.py\<close>. Nothing is read into them where a statement is
  about them: in the two unit converters the result such a line would return is a
  parameter of the function. The loaders, whose properties below hold for every scale
  and every list of points, are run with the number written without the blank, and so
  is \<^verbatim>\<open>_flatten_path_points\<close>. The pattern of line 109 of \<^verbatim>\<open>svg_parser.py\<close> is
  taken as written.
\<close>

datatype error = ImportError | OSError | AttributeError | TypeError | ValueError
  | OverflowError | LibraryError | ReError

type_synonym point = "real \<times> real"

text \<open>A generator or iterable: the items it yields, then the exception that ends it, if any.\<close>

datatype 'a gen = Gen (yielded: "'a list") (raised: "error option")

subsection \<open>Strings\<close>

text \<open>\<^verbatim>\<open>str.isspace\<close> on the code points below 256.\<close>

definition isspace :: "char \<Rightarrow> bool" where
  "isspace c = ((of_char c :: nat) \<in> {9, 10, 11, 12, 13, 28, 29, 30, 31, 32, 133, 160})"

definition strip :: "string \<Rightarrow> string" where
  "strip s = rev (dropWhile isspace (rev (dropWhile isspace s)))"

text \<open>
  \<^verbatim>\<open>str.lower\<close> and \<^verbatim>\<open>str.upper\<close> on ASCII letters. The results are only ever
  compared with ASCII literals, and no other character below 256 has an ASCII letter
  as its case image ending a string.
\<close>

definition lower_char :: "char \<Rightarrow> char" where
  "lower_char c = (let n = (of_char c :: nat) in if 65 \<le> n \<and> n \<le> 90 then char_of (n + 32) else c)"

definition upper_char :: "char \<Rightarrow> char" where
  "upper_char c = (let n = (of_char c :: nat) in if 97 \<le> n \<and> n \<le> 122 then char_of (n - 32) else c)"

definition lower :: "string \<Rightarrow> string" where
  "lower s = map lower_char s"

definition upper :: "string \<Rightarrow> string" where
  "upper s = map upper_char s"

definition startswith :: "string \<Rightarrow> string \<Rightarrow> bool" where
  "startswith s p = (take (length p) s = p)"

definition endswith :: "string \<Rightarrow> string \<Rightarrow> bool" where
  "endswith s p = (length p \<le> length s \<and> drop (length s - length p) s = p)"

text \<open>\<^verbatim>\<open>str(n)\<close> for a non-negative integer.\<close>

fun str_nat :: "nat \<Rightarrow> string" where
  "str_nat n = (if n < 10 then [char_of (48 + n)]
                else str_nat (n div 10) @ [char_of (48 + n mod 10)])"

declare str_nat.simps [simp del]

subsection \<open>Numbers\<close>

text \<open>\<^verbatim>\<open>int(x)\<close> on a finite float truncates towards zero.\<close>

definition py_int :: "real \<Rightarrow> int" where
  "py_int x = (if 0 \<le> x then \<lfloor>x\<rfloor> else \<lceil>x\<rceil>)"

text \<open>\<^verbatim>\<open>range(n)\<close>.\<close>

definition py_range :: "int \<Rightarrow> nat list" where
  "py_range n = [0..<nat n]"

text \<open>
  The functions of the \<^verbatim>\<open>math\<close> module the flattener calls. They are a parameter:
  the exact functions are one instance, the platform's rounded ones another.
\<close>

record mathlib =
  m_pi :: real
  m_cos :: "real \<Rightarrow> real"
  m_sin :: "real \<Rightarrow> real"

definition radians :: "mathlib \<Rightarrow> real \<Rightarrow> real" where
  "radians M x = x * (m_pi M / 180)"

definition exact_math :: mathlib where
  "exact_math = \<lparr>m_pi = pi, m_cos = cos, m_sin = sin\<rparr>"


section \<open>Unit conversion\<close>

text \<open>
  \<^verbatim>\<open>dxf_parser._unit_scale_to_mm(units: str)\<close>. Line 18, the result for an empty token,
  reads \<^verbatim>\<open>return 1. 0\<close>; \<open>line_18\<close> stands for what it would return.
\<close>

definition dxf_unit_scale_to_mm :: "real \<Rightarrow> string \<Rightarrow> real" where
  "dxf_unit_scale_to_mm line_18 units =
     (if units = [] then line_18
      else let u = lower (strip units) in
        if startswith u ''in'' then 25.4
        else 1.0)"

text \<open>
  \<^verbatim>\<open>svg_parser._unit_scale_to_mm(unit: Optional[str])\<close>. Three of its results are
  written with a blank inside the number: line 48 (no token), line 51 (millimetres) and
  line 58 (pixels). The record holds what each would return.
\<close>

record unit_lines =
  line_48 :: real
  line_51 :: real
  line_58 :: real

definition svg_unit_scale_to_mm :: "unit_lines \<Rightarrow> string option \<Rightarrow> real" where
  "svg_unit_scale_to_mm L unit =
     (case unit of
        None \<Rightarrow> line_48 L
      | Some s \<Rightarrow>
          if s = [] then line_48 L
          else let u = lower (strip s) in
            if u \<in> {''mm'', ''millimeter'', ''millimeters''} then line_51 L
            else if u \<in> {''inch'', ''inches'', ''in''} then 25.4
            else if u \<in> {''cm'', ''centimeter'', ''centimeters''} then 10.0
            else if u \<in> {''px'', ''pixels'', ''pixel''} then line_58 L
            else 1.0)"

text \<open>The three lines with the blank taken out of the number: what the SVG loader is run with.\<close>

definition lines_as_read :: unit_lines where
  "lines_as_read = \<lparr>line_48 = 1.0, line_51 = 1.0, line_58 = 25.4 / 96.0\<rparr>"

section \<open>Splitting an SVG path string into subpaths\<close>

text \<open>
  \<^verbatim>\<open>re.split(r'(? =[Mm])', s)\<close>, as line 109 has it. In a pattern, \<^verbatim>\<open>(?\<close> opens a
  group extension and must be followed by the character that names it; here a blank
  follows, so the \<^verbatim>\<open>re\<close> module refuses the pattern and raises \<^verbatim>\<open>re.error\<close>
  (unknown extension), whatever the string.
\<close>

definition re_split_moves :: "string \<Rightarrow> error + string list" where
  "re_split_moves s = Inl ReError"

text \<open>
  \<^verbatim>\<open>svg_parser._split_path_by_moves\<close>, for a given answer \<open>re_split\<close> of the regular
  expression engine.
\<close>

definition split_path_by_moves :: "(string \<Rightarrow> error + string list) \<Rightarrow> string \<Rightarrow> error + string list" where
  "split_path_by_moves re_split d_string =
     (if d_string = [] then Inr []
      else case re_split (strip d_string) of
             Inl x \<Rightarrow> Inl x
           | Inr parts \<Rightarrow> Inr (map strip (filter (\<lambda>p. strip p \<noteq> []) parts)))"

section \<open>The output record\<close>

record path =
  points :: "point list"
  closed :: bool
  layer :: "string option"
  color :: "string option"
  source :: string

section \<open>DXF entities\<close>

text \<open>
  What ezdxf answers when the parser asks an entity: each field is the outcome of one
  attribute read or method call, with the conversions (\<^verbatim>\<open>float\<close>, \<^verbatim>\<open>int\<close>,
  \<^verbatim>\<open>str\<close>, \<^verbatim>\<open>bool\<close>, tuple unpacking) the parser applies to it on the spot.
\<close>

record ctool =
  approximate :: "nat \<Rightarrow> error + point list"
  evaluate :: "real \<Rightarrow> error + point"

record entity =
  dxftype :: "error + string"
  flattening :: "real \<Rightarrow> point gen"
  dxf_start :: "error + point"
  dxf_end :: "error + point"
  dxf_center :: "error + point"
  dxf_radius :: "error + real"
  dxf_start_angle :: "error + real"
  dxf_end_angle :: "error + real"
  construction_tool :: "error + ctool"
  control_points :: "point gen"
  vertices :: "(error + point) gen"
  dxf_flags :: "error + int"
  closed_attr :: "error + bool"
  dxf_layer :: "error + string"
  dxf_color :: "error + int"

subsection \<open>Flattening one entity\<close>

text \<open>The sampling loops of the ARC and CIRCLE branches.\<close>

definition arc_points :: "mathlib \<Rightarrow> point \<Rightarrow> real \<Rightarrow> real \<Rightarrow> real \<Rightarrow> int \<Rightarrow> point list" where
  "arc_points M c r a1 sw n =
     map (\<lambda>i. let ang = radians M (a1 + sw * real i / real_of_int n)
               in (fst c + r * m_cos M ang, snd c + r * m_sin M ang))
         (py_range (n + 1))"

definition circle_points :: "mathlib \<Rightarrow> point \<Rightarrow> real \<Rightarrow> int \<Rightarrow> point list" where
  "circle_points M c r n =
     map (\<lambda>i. let ang = 2 * m_pi M * real i / real_of_int n
               in (fst c + r * m_cos M ang, snd c + r * m_sin M ang))
         (py_range (n + 1))"

text \<open>The sampling loop of the SPLINE branch: a sample that raises is skipped.\<close>

definition spline_samples :: "ctool \<Rightarrow> int \<Rightarrow> point list" where
  "spline_samples tool n =
     List.map_filter
       (\<lambda>i. case evaluate tool (real i / real_of_int n) of Inl _ \<Rightarrow> None | Inr pt \<Rightarrow> Some pt)
       (py_range (n + 1))"

text \<open>The vertex loop of the polyline branch: a vertex without a location is skipped.\<close>

definition readable_vertices :: "(error + point) list \<Rightarrow> point list" where
  "readable_vertices vs = List.map_filter (\<lambda>v. case v of Inl _ \<Rightarrow> None | Inr loc \<Rightarrow> Some loc) vs"

text \<open>
  The body of the second \<^verbatim>\<open>try\<close> of \<^verbatim>\<open>_flatten_entity\<close> (the dispatch on the
  type tag). \<open>Inl\<close> is an exception that reaches the enclosing \<^verbatim>\<open>except\<close>.
\<close>

definition fallback_body :: "mathlib \<Rightarrow> entity \<Rightarrow> real \<Rightarrow> string \<Rightarrow> error + point list" where
  "fallback_body M e tol t =
     (if t = ''LINE'' then
        (case dxf_start e of Inl x \<Rightarrow> Inl x | Inr s \<Rightarrow>
         case dxf_end e of Inl x \<Rightarrow> Inl x | Inr en \<Rightarrow> Inr [s, en])
      else if t = ''ARC'' then
        (case dxf_center e of Inl x \<Rightarrow> Inl x | Inr c \<Rightarrow>
         case dxf_radius e of Inl x \<Rightarrow> Inl x | Inr r \<Rightarrow>
         case dxf_start_angle e of Inl x \<Rightarrow> Inl x | Inr a1 \<Rightarrow>
         case dxf_end_angle e of Inl x \<Rightarrow> Inl x | Inr a2 \<Rightarrow>
           let a2 = (if a2 < a1 then a2 + 360 else a2);
               sw = a2 - a1;
               n = max 12 (py_int (sw / max tol (1 / 10000)))
           in Inr (arc_points M c r a1 sw n))
      else if t = ''CIRCLE'' then
        (case dxf_center e of Inl x \<Rightarrow> Inl x | Inr c \<Rightarrow>
         case dxf_radius e of Inl x \<Rightarrow> Inl x | Inr r \<Rightarrow>
           Inr (circle_points M c r 64))
      else if t = ''ELLIPSE'' then
        (case construction_tool e of Inl x \<Rightarrow> Inl x | Inr tool \<Rightarrow> approximate tool 64)
      else if t = ''SPLINE'' then
        (case construction_tool e of Inl x \<Rightarrow> Inl x | Inr tool \<Rightarrow>
           let out = spline_samples tool 128
           in if out \<noteq> [] then Inr out
              else Inr (yielded (control_points e)))
      else if t = ''LWPOLYLINE'' \<or> t = ''POLYLINE'' then
        (let out = yielded (flattening e tol)
         in if out \<noteq> [] then Inr out
            else Inr (readable_vertices (yielded (vertices e))))
      else Inr [])"

text \<open>\<^verbatim>\<open>dxf_parser._flatten_entity\<close>.\<close>

definition flatten_entity :: "mathlib \<Rightarrow> entity \<Rightarrow> real \<Rightarrow> point list" where
  "flatten_entity M e tol =
     (let g = flattening e tol in
      if raised g = None \<and> yielded g \<noteq> [] then yielded g
      else case dxftype e of
             Inl _ \<Rightarrow> []
           | Inr t \<Rightarrow> (case fallback_body M e tol t of Inl _ \<Rightarrow> [] | Inr pts \<Rightarrow> pts))"

subsection \<open>Closure of one entity\<close>

text \<open>
  Lines 148 to 176 of \<^verbatim>\<open>load_dxf\<close>: the closed flag and the points after the forced
  closing. It runs only on at least two points, so \<open>hd\<close> and \<open>last\<close> are
  \<^verbatim>\<open>pts[0]\<close> and \<^verbatim>\<open>pts[-1]\<close>.
\<close>

definition close_ring :: "bool \<Rightarrow> point list \<Rightarrow> point list" where
  "close_ring c pts = (if c \<and> hd pts \<noteq> last pts then pts @ [hd pts] else pts)"

definition dxf_classify :: "string \<Rightarrow> entity \<Rightarrow> point list \<Rightarrow> bool \<times> point list" where
  "dxf_classify t e pts =
     (if t = ''CIRCLE'' \<or> t = ''ELLIPSE'' then (True, close_ring True pts)
      else if t = ''LWPOLYLINE'' \<or> t = ''POLYLINE'' then
        (let c = (case dxf_flags e of Inl _ \<Rightarrow> hd pts = last pts | Inr f \<Rightarrow> f AND 1 \<noteq> 0)
         in (c, close_ring c pts))
      else if t = ''SPLINE'' then
        (let c = (case closed_attr e of Inl _ \<Rightarrow> hd pts = last pts | Inr b \<Rightarrow> b)
         in (c, close_ring c pts))
      else (hd pts = last pts, pts))"

subsection \<open>The DXF loader\<close>

definition scale_points :: "real \<Rightarrow> point list \<Rightarrow> point list" where
  "scale_points scale pts = map (\<lambda>(x, y). (x * scale, y * scale)) pts"

text \<open>
  The body of the loop of \<^verbatim>\<open>load_dxf\<close>: \<open>None\<close> is \<^verbatim>\<open>continue\<close>, \<open>Some\<close> the
  record appended to \<^verbatim>\<open>paths\<close>.
\<close>

definition dxf_entity_path :: "mathlib \<Rightarrow> real \<Rightarrow> real \<Rightarrow> entity \<Rightarrow> path option" where
  "dxf_entity_path M scale tol e =
     (case dxftype e of
        Inl _ \<Rightarrow> None
      | Inr t \<Rightarrow>
          let pts = flatten_entity M e tol in
          if length pts < 2 then None
          else
            let (c, pts') = dxf_classify t e pts;
                lay = (case dxf_layer e of Inl _ \<Rightarrow> ''0'' | Inr l \<Rightarrow> l);
                col = (case dxf_color e of
                         Inl _ \<Rightarrow> None
                       | Inr k \<Rightarrow> if k > 0 then Some (str_nat (nat k)) else None)
            in Some \<lparr>points = scale_points scale pts', closed = c, layer = Some lay,
                      color = col, source = ''dxf''\<rparr>)"

fun dxf_loop :: "mathlib \<Rightarrow> real \<Rightarrow> real \<Rightarrow> entity list \<Rightarrow> path list \<Rightarrow> path list" where
  "dxf_loop M scale tol [] paths = paths"
| "dxf_loop M scale tol (e # es) paths =
     (case dxf_entity_path M scale tol e of
        None \<Rightarrow> dxf_loop M scale tol es paths
      | Some p \<Rightarrow> dxf_loop M scale tol es (paths @ [p]))"

text \<open>
  The environment of a call of \<^verbatim>\<open>load_dxf\<close>: whether ezdxf was importable, and what
  \<^verbatim>\<open>ezdxf.readfile(filename).modelspace()\<close> holds for each file name.
\<close>

record dxf_env =
  has_ezdxf :: bool
  readfile :: "string \<Rightarrow> error + entity list"

text \<open>
  \<^verbatim>\<open>dxf_parser.load_dxf\<close>. The result is the list of the files the call opened, and
  the value returned (\<open>Inr\<close>) or the exception that leaves the function (\<open>Inl\<close>). The
  converter is run with line 18 read as \<^verbatim>\<open>return 1.0\<close>.
\<close>

definition load_dxf :: "mathlib \<Rightarrow> dxf_env \<Rightarrow> string \<Rightarrow> string \<Rightarrow> string list \<times> (error + path list)" where
  "load_dxf M env filename units =
     (if \<not> has_ezdxf env then ([], Inr [])
      else
        let scale = dxf_unit_scale_to_mm 1.0 units;
            tol = 0.25 / scale
        in case readfile env filename of
             Inl _ \<Rightarrow> ([filename], Inr [])
           | Inr msp \<Rightarrow> ([filename], Inr (dxf_loop M scale tol msp [])))"

section \<open>SVG paths\<close>

text \<open>
  A Python float where the special values matter: the length svgpathtools reports for
  a curve.
\<close>

datatype pyfloat = Finite real | PosInf | NegInf | NaN

text \<open>\<^verbatim>\<open>max(a, b)\<close> is \<^verbatim>\<open>b\<close> when \<^verbatim>\<open>b > a\<close>, else \<^verbatim>\<open>a\<close>; here \<^verbatim>\<open>b\<close> is a finite constant.\<close>

fun float_max :: "pyfloat \<Rightarrow> real \<Rightarrow> pyfloat" where
  "float_max (Finite a) b = Finite (if b > a then b else a)"
| "float_max PosInf b = PosInf"
| "float_max NegInf b = Finite b"
| "float_max NaN b = NaN"

text \<open>\<^verbatim>\<open>(a * 1.0) / d\<close> for a finite, positive \<^verbatim>\<open>d\<close>.\<close>

fun float_div :: "pyfloat \<Rightarrow> real \<Rightarrow> pyfloat" where
  "float_div (Finite a) d = Finite ((a * 1.0) / d)"
| "float_div PosInf d = PosInf"
| "float_div NegInf d = NegInf"
| "float_div NaN d = NaN"

text \<open>\<^verbatim>\<open>int(x)\<close>: OverflowError on an infinity, ValueError on NaN.\<close>

fun float_int :: "pyfloat \<Rightarrow> error + int" where
  "float_int (Finite a) = Inr (py_int a)"
| "float_int PosInf = Inl OverflowError"
| "float_int NegInf = Inl OverflowError"
| "float_int NaN = Inl ValueError"

text \<open>What svgpathtools answers for one parsed curve object.\<close>

record svg_path =
  p_len :: nat
  p_length :: "error + pyfloat"
  p_point :: "real \<Rightarrow> error + point"
  p_isclosed :: "error + bool"

text \<open>
  \<^verbatim>\<open>svg_parser._flatten_path_points\<close>, called on a curve object that is not
  \<^verbatim>\<open>None\<close>. The conversion to \<^verbatim>\<open>int\<close> stands outside every \<^verbatim>\<open>try\<close>. Lines 80
  and 83 read \<^verbatim>\<open>length = 1. 0\<close> and \<^verbatim>\<open>(length * 1. 0)\<close>; they are read here as
  \<^verbatim>\<open>1.0\<close>. They bear on the number of samples only.
\<close>

definition flatten_path_points :: "bool \<Rightarrow> svg_path \<Rightarrow> real \<Rightarrow> error + point list" where
  "flatten_path_points has_svgtools pth tol_mm =
     (if \<not> has_svgtools then Inr []
      else
        let len = (case p_length pth of
                     Inl _ \<Rightarrow> Finite 1.0
                   | Inr l \<Rightarrow> float_max l (1 / 1000))
        in case float_int (float_div len (max tol_mm (1 / 1000))) of
             Inl x \<Rightarrow> Inl x
           | Inr k \<Rightarrow>
               let segs = max 64 k
               in Inr (List.map_filter
                         (\<lambda>i. case p_point pth (real i / real_of_int segs) of
                                 Inl _ \<Rightarrow> None
                               | Inr p \<Rightarrow> Some p)
                         (py_range (segs + 1))))"

text \<open>
  The environment of a call of \<^verbatim>\<open>load_svg\<close>: the two optional imports, the file
  system, the three regular-expression calls (the search for path elements of line 147,
  the search for attributes of line 163, the split of line 109), the stored units
  setting (\<open>None\<close> for a value that is false in a condition) and the curve parser
  (\<open>Inr None\<close> when it returns \<^verbatim>\<open>None\<close>). With the pattern of line 109 as written,
  \<open>re_split\<close> is \<open>re_split_moves\<close>.
\<close>

record svg_env =
  has_svgtools :: bool
  has_qt :: bool
  open_read :: "string \<Rightarrow> error + string"
  findall_path :: "string \<Rightarrow> string list"
  finditer_attr :: "string \<Rightarrow> (string \<times> string) list"
  re_split :: "string \<Rightarrow> error + string list"
  settings_value :: "error + string option"
  parse_path :: "string \<Rightarrow> error + svg_path option"

text \<open>Lines 190 to 205 of \<^verbatim>\<open>load_svg\<close>: the closed flag of one subpath.\<close>

definition svg_closed :: "string \<Rightarrow> svg_path \<Rightarrow> point list \<Rightarrow> bool" where
  "svg_closed subpath_str pth pts =
     (if endswith (upper (strip subpath_str)) ''Z'' then True
      else case p_isclosed pth of
             Inr b \<Rightarrow> b
           | Inl _ \<Rightarrow>
               if length pts \<ge> 2 then
                 (let dx = \<bar>fst (hd pts) - fst (last pts)\<bar>;
                      dy = \<bar>snd (hd pts) - snd (last pts)\<bar>
                  in dx < 1 / 1000000 \<and> dy < 1 / 1000000)
               else False)"

text \<open>
  The body of the inner loop of \<^verbatim>\<open>load_svg\<close>: \<open>Inr None\<close> is \<^verbatim>\<open>continue\<close>,
  \<open>Inr (Some p)\<close> the record appended, \<open>Inl\<close> an exception that leaves the loop. The
  pixel scale of line 212 is the converter's, run with \<open>lines_as_read\<close>.
\<close>

definition svg_subpath ::
  "svg_env \<Rightarrow> real \<Rightarrow> (string \<rightharpoonup> string) \<Rightarrow> string \<Rightarrow> error + path option" where
  "svg_subpath env tol_mm attrs subpath_str =
     (if strip subpath_str = [] then Inr None
      else case parse_path env subpath_str of
             Inl _ \<Rightarrow> Inr None
           | Inr None \<Rightarrow> Inr None
           | Inr (Some path_obj) \<Rightarrow>
               if p_len path_obj = 0 then Inr None
               else case flatten_path_points (has_svgtools env) path_obj tol_mm of
                      Inl x \<Rightarrow> Inl x
                    | Inr pts \<Rightarrow>
                        if length pts < 2 then Inr None
                        else
                          let c = svg_closed subpath_str path_obj pts;
                              pts' = (if c \<and> length pts \<ge> 2 \<and> hd pts \<noteq> last pts
                                      then pts @ [hd pts] else pts);
                              mm_pts = map (\<lambda>(x, y).
                                          (x * svg_unit_scale_to_mm lines_as_read (Some ''px''),
                                           y * svg_unit_scale_to_mm lines_as_read (Some ''px''))) pts';
                              col = (case attrs ''stroke'' of
                                       None \<Rightarrow> None
                                     | Some v \<Rightarrow> if v = ''none'' \<or> v = [] then None else Some v)
                          in Inr (Some \<lparr>points = mm_pts, closed = c, layer = attrs ''id'',
                                         color = col, source = ''svg''\<rparr>))"

fun svg_subpath_loop ::
  "svg_env \<Rightarrow> real \<Rightarrow> (string \<rightharpoonup> string) \<Rightarrow> string list \<Rightarrow> path list \<Rightarrow> error + path list" where
  "svg_subpath_loop env tol_mm attrs [] result = Inr result"
| "svg_subpath_loop env tol_mm attrs (s # ss) result =
     (case svg_subpath env tol_mm attrs s of
        Inl x \<Rightarrow> Inl x
      | Inr None \<Rightarrow> svg_subpath_loop env tol_mm attrs ss result
      | Inr (Some p) \<Rightarrow> svg_subpath_loop env tol_mm attrs ss (result @ [p]))"

text \<open>The attribute dictionary of one element: a later pair replaces an earlier one.\<close>

definition parse_attrs :: "svg_env \<Rightarrow> string \<Rightarrow> (string \<rightharpoonup> string)" where
  "parse_attrs env path_attrs_str = map_of (rev (finditer_attr env path_attrs_str))"

fun svg_element_loop ::
  "svg_env \<Rightarrow> real \<Rightarrow> string list \<Rightarrow> path list \<Rightarrow> error + path list" where
  "svg_element_loop env tol_mm [] result = Inr result"
| "svg_element_loop env tol_mm (a # as) result =
     (let attrs = parse_attrs env a;
          d_attr = (case attrs ''d'' of None \<Rightarrow> [] | Some d \<Rightarrow> d)
      in if d_attr = [] then svg_element_loop env tol_mm as result
         else case split_path_by_moves (re_split env) d_attr of
                Inl x \<Rightarrow> Inl x
              | Inr subpath_strings \<Rightarrow>
                  (case svg_subpath_loop env tol_mm attrs subpath_strings result of
                     Inl x \<Rightarrow> Inl x
                   | Inr result' \<Rightarrow> svg_element_loop env tol_mm as result'))"

text \<open>Lines 149 to 157 of \<^verbatim>\<open>load_svg\<close>: the flattening tolerance.\<close>

definition svg_tolerance :: "svg_env \<Rightarrow> real" where
  "svg_tolerance env =
     (let current_units =
            (if has_qt env then
               (case settings_value env of Inl _ \<Rightarrow> Some ''metric'' | Inr v \<Rightarrow> v)
             else None);
          shown = (case current_units of
                     None \<Rightarrow> ''metric''
                   | Some u \<Rightarrow> if u = [] then ''metric'' else u)
      in if startswith shown ''met'' then 0.05 else 0.002)"

text \<open>
  \<^verbatim>\<open>svg_parser.load_svg\<close>, with the same result shape as \<open>load_dxf\<close>: the files
  opened, and the value returned or the exception that leaves the function.
\<close>

definition load_svg :: "svg_env \<Rightarrow> string \<Rightarrow> string list \<times> (error + path list)" where
  "load_svg env filepath =
     (if \<not> has_svgtools env then ([], Inr [])
      else case open_read env filepath of
             Inl _ \<Rightarrow> ([filepath], Inr [])
           | Inr svg_content \<Rightarrow>
               ([filepath],
                svg_element_loop env (svg_tolerance env) (findall_path env svg_content) []))"

section \<open>The package-level bindings\<close>

text \<open>
  \<^verbatim>\<open>plasma_core/parsers/__init__.py\<close>: each loader is the module's function when the
  module imports, else a fallback that returns the empty list.
\<close>

definition fallback_load_dxf :: "string \<Rightarrow> string \<Rightarrow> string list \<times> (error + path list)" where
  "fallback_load_dxf filename units = ([], Inr [])"

definition fallback_load_svg :: "string \<Rightarrow> string list \<times> (error + path list)" where
  "fallback_load_svg filepath = ([], Inr [])"

definition parsers_load_dxf ::
  "bool \<Rightarrow> mathlib \<Rightarrow> dxf_env \<Rightarrow> string \<Rightarrow> string \<Rightarrow> string list \<times> (error + path list)" where
  "parsers_load_dxf module_imports M env filename units =
     (if module_imports then load_dxf M env filename units
      else fallback_load_dxf filename units)"

definition parsers_load_svg ::
  "bool \<Rightarrow> svg_env \<Rightarrow> string \<Rightarrow> string list \<times> (error + path list)" where
  "parsers_load_svg module_imports env filepath =
     (if module_imports then load_svg env filepath
      else fallback_load_svg filepath)"

section \<open>Sample documents\<close>

text \<open>Concrete entities, curves and environments on which the theorems below are run.\<close>

definition no_flattening :: "real \<Rightarrow> point gen" where
  "no_flattening tol = Gen [] (Some AttributeError)"

definition bare_entity :: "string \<Rightarrow> entity" where
  "bare_entity t =
     \<lparr>dxftype = Inr t, flattening = no_flattening,
      dxf_start = Inl AttributeError, dxf_end = Inl AttributeError,
      dxf_center = Inl AttributeError, dxf_radius = Inl AttributeError,
      dxf_start_angle = Inl AttributeError, dxf_end_angle = Inl AttributeError,
      construction_tool = Inl AttributeError, control_points = Gen [] (Some AttributeError),
      vertices = Gen [] (Some TypeError), dxf_flags = Inl AttributeError,
      closed_attr = Inl AttributeError, dxf_layer = Inr ''0'', dxf_color = Inr 7\<rparr>"

definition line_entity :: "point \<Rightarrow> point \<Rightarrow> entity" where
  "line_entity a b = (bare_entity ''LINE'')\<lparr>dxf_start := Inr a, dxf_end := Inr b\<rparr>"

definition arc_entity :: "point \<Rightarrow> real \<Rightarrow> real \<Rightarrow> real \<Rightarrow> entity" where
  "arc_entity c r a1 a2 =
     (bare_entity ''ARC'')\<lparr>dxf_center := Inr c, dxf_radius := Inr r,
                             dxf_start_angle := Inr a1, dxf_end_angle := Inr a2\<rparr>"


text \<open>A spline tool that evaluates everywhere, and one that evaluates nowhere.\<close>

definition ramp_tool :: ctool where
  "ramp_tool = \<lparr>approximate = (\<lambda>n. Inl AttributeError), evaluate = (\<lambda>t. Inr (t, 0))\<rparr>"

definition dead_tool :: ctool where
  "dead_tool = \<lparr>approximate = (\<lambda>n. Inl AttributeError), evaluate = (\<lambda>t. Inl ValueError)\<rparr>"

definition spline_entity :: "ctool \<Rightarrow> point list \<Rightarrow> entity" where
  "spline_entity tool cps =
     (bare_entity ''SPLINE'')\<lparr>construction_tool := Inr tool, control_points := Gen cps None\<rparr>"

text \<open>A polyline with the closed bit set, read vertex by vertex.\<close>

definition polyline_entity :: "point list \<Rightarrow> int \<Rightarrow> entity" where
  "polyline_entity vs flags =
     (bare_entity ''LWPOLYLINE'')\<lparr>vertices := Gen (map Inr vs) None, dxf_flags := Inr flags\<rparr>"

definition sample_dxf_env :: "entity list \<Rightarrow> dxf_env" where
  "sample_dxf_env es = \<lparr>has_ezdxf = True, readfile = (\<lambda>f. Inr es)\<rparr>"

text \<open>
  A curve from \<open>(0, 0)\<close> to \<open>(x, 0)\<close> of the given reported length, whose point
  evaluation answers at the two ends only.
\<close>

definition ends_path :: "real \<Rightarrow> pyfloat \<Rightarrow> svg_path" where
  "ends_path x len =
     \<lparr>p_len = 1, p_length = Inr len,
      p_point = (\<lambda>t. if t = 0 then Inr (0, 0) else if t = 1 then Inr (x, 0) else Inl ValueError),
      p_isclosed = Inr (x = 0)\<rparr>"

text \<open>
  An SVG file that is one path element with the attribute \<^verbatim>\<open>d\<close> and a blank in front
  of the closing bracket, as the pattern of line 146 (\<^verbatim>\<open><path\s+([^>]+)/? >\<close>) asks:
  \<^verbatim>\<open><path d="..." >\<close>. On this text the search of line 147 finds the one attribute
  string \<^verbatim>\<open>d="..."\<close>, and the search of line 163 finds in it the one pair
  (\<open>d\<close> must hold no quote and no bracket). The split is the one of line 109 as
  written, and every subpath parses to \<open>pth\<close>.
\<close>

definition quote :: char where
  "quote = CHR 0x22"

definition path_attribute :: "string \<Rightarrow> string" where
  "path_attribute d = ''d='' @ [quote] @ d @ [quote]"

definition path_element :: "string \<Rightarrow> string" where
  "path_element d = ''<path '' @ path_attribute d @ '' >''"

definition sample_svg_env :: "string \<Rightarrow> svg_path \<Rightarrow> svg_env" where
  "sample_svg_env d pth =
     \<lparr>has_svgtools = True, has_qt = False,
      open_read = (\<lambda>f. Inr (path_element d)),
      findall_path = (\<lambda>content. if content = path_element d then [path_attribute d] else []),
      finditer_attr = (\<lambda>a. if a = path_attribute d then [(''d'', d)] else []),
      re_split = re_split_moves,
      settings_value = Inr None,
      parse_path = (\<lambda>s. Inr (Some pth))\<rparr>"

text \<open>Documents and the records they load to.\<close>

definition open_triangle :: entity where
  "open_triangle = polyline_entity [(0, 0), (1, 0), (1, 1)] 1"

definition triangle_ring :: path where
  "triangle_ring =
     \<lparr>points = [(0, 0), (1, 0), (1, 1), (0, 0)], closed = True, layer = Some ''0'',
      color = Some ''7'', source = ''dxf''\<rparr>"

definition inch_line :: path where
  "inch_line =
     \<lparr>points = [(0, 0), (254, 0)], closed = False, layer = Some ''0'',
      color = Some ''7'', source = ''dxf''\<rparr>"


section \<open>Properties of the DXF loop\<close>

lemma dxf_loop_eq:
  "dxf_loop M sc tol es acc = acc @ List.map_filter (dxf_entity_path M sc tol) es"
  by (induction es arbitrary: acc) (auto simp: List.map_filter_simps split: option.splits)

lemma dxf_classify_cases:
  "dxf_classify t e pts = (c, pts') \<Longrightarrow>
     pts' = close_ring c pts \<or> (pts' = pts \<and> c = (hd pts = last pts))"
  unfolding dxf_classify_def Let_def
  by (auto split: if_split_asm)

lemma close_ring_props:
  assumes "pts \<noteq> []"
  shows "length pts \<le> length (close_ring c pts)"
    and "c \<Longrightarrow> hd (close_ring c pts) = last (close_ring c pts)"
  using assms by (auto simp: close_ring_def)

lemma dxf_classify_props:
  assumes "pts \<noteq> []" and "dxf_classify t e pts = (c, pts')"
  shows "length pts \<le> length pts'" and "c \<Longrightarrow> hd pts' = last pts'"
  using dxf_classify_cases[OF assms(2)] close_ring_props[OF assms(1), of c]
  by auto

lemma scale_points_length: "length (scale_points s pts) = length pts"
  by (simp add: scale_points_def)

lemma scale_points_ends:
  "pts \<noteq> [] \<Longrightarrow> hd pts = last pts \<Longrightarrow> hd (scale_points s pts) = last (scale_points s pts)"
  by (simp add: scale_points_def hd_map last_map)

lemma dxf_entity_path_SomeD:
  assumes "dxf_entity_path M sc tol e = Some p"
  shows "\<exists>t c pts'. dxftype e = Inr t \<and> 2 \<le> length (flatten_entity M e tol)
           \<and> dxf_classify t e (flatten_entity M e tol) = (c, pts')
           \<and> points p = scale_points sc pts' \<and> closed p = c"
proof -
  from assms obtain t where t: "dxftype e = Inr t"
    unfolding dxf_entity_path_def by (cases "dxftype e") simp_all
  from assms t have len: "2 \<le> length (flatten_entity M e tol)"
    unfolding dxf_entity_path_def Let_def by (simp split: if_split_asm)
  obtain c pts' where cl: "dxf_classify t e (flatten_entity M e tol) = (c, pts')"
    by (cases "dxf_classify t e (flatten_entity M e tol)")
  from assms t len cl have "points p = scale_points sc pts'" "closed p = c"
    unfolding dxf_entity_path_def Let_def by auto
  with t len cl show ?thesis by blast
qed

lemma dxf_entity_path_props:
  assumes "dxf_entity_path M sc tol e = Some p"
  shows "2 \<le> length (points p)" and "closed p \<Longrightarrow> hd (points p) = last (points p)"
proof -
  from dxf_entity_path_SomeD[OF assms] obtain t c pts' where
    len: "2 \<le> length (flatten_entity M e tol)"
    and cl: "dxf_classify t e (flatten_entity M e tol) = (c, pts')"
    and p: "points p = scale_points sc pts'" "closed p = c" by blast
  from len have ne: "flatten_entity M e tol \<noteq> []" by auto
  from dxf_classify_props[OF ne cl] len have l2: "2 \<le> length pts'"
    and hl: "c \<Longrightarrow> hd pts' = last pts'"
    by auto
  from l2 have ne': "pts' \<noteq> []" by auto
  show "2 \<le> length (points p)" using p l2 by (simp add: scale_points_length)
  show "closed p \<Longrightarrow> hd (points p) = last (points p)"
    using p hl ne' by (simp add: scale_points_ends)
qed

lemma dxf_entity_path_dropped:
  "length (flatten_entity M e tol) < 2 \<Longrightarrow> dxf_entity_path M sc tol e = None"
  unfolding dxf_entity_path_def Let_def by (simp split: sum.split)

lemma load_dxf_Inr: "\<exists>ps. snd (load_dxf M env f u) = Inr ps"
  by (auto simp: load_dxf_def Let_def split: sum.splits)

lemma load_dxf_set:
  assumes "snd (load_dxf M env f u) = Inr ps" "p \<in> set ps"
  shows "\<exists>e sc tol. dxf_entity_path M sc tol e = Some p"
proof -
  from assms obtain sc tol es where "ps = List.map_filter (dxf_entity_path M sc tol) es"
    unfolding load_dxf_def Let_def
    by (cases "has_ezdxf env"; cases "readfile env f") (auto simp: dxf_loop_eq)
  with assms(2) show ?thesis
    unfolding List.map_filter_def by force
qed

lemma dxf_loop_drop:
  "dxf_entity_path M sc tol e = None \<Longrightarrow>
     dxf_loop M sc tol (es1 @ e # es2) acc = dxf_loop M sc tol (es1 @ es2) acc"
  by (simp add: dxf_loop_eq List.map_filter_def)

section \<open>Properties of the SVG loops\<close>

lemma svg_subpath_SomeD:
  assumes "svg_subpath env tol attrs s = Inr (Some p)"
  shows "\<exists>po pts. parse_path env s = Inr (Some po) \<and> p_len po \<noteq> 0
           \<and> flatten_path_points (has_svgtools env) po tol = Inr pts \<and> 2 \<le> length pts
           \<and> closed p = svg_closed s po pts
           \<and> points p = map (\<lambda>(x, y). (x * svg_unit_scale_to_mm lines_as_read (Some ''px''),
                                        y * svg_unit_scale_to_mm lines_as_read (Some ''px'')))
                            (if closed p \<and> hd pts \<noteq> last pts then pts @ [hd pts] else pts)"
proof -
  from assms have ne: "strip s \<noteq> []"
    unfolding svg_subpath_def by (auto split: if_split_asm)
  from assms ne obtain po where po: "parse_path env s = Inr (Some po)"
    unfolding svg_subpath_def
    by (cases "parse_path env s") (auto split: option.splits)
  from assms ne po have len: "p_len po \<noteq> 0"
    unfolding svg_subpath_def by (auto split: if_split_asm)
  from assms ne po len obtain pts where
    pts: "flatten_path_points (has_svgtools env) po tol = Inr pts"
    unfolding svg_subpath_def
    by (cases "flatten_path_points (has_svgtools env) po tol") auto
  from assms ne po len pts have l2: "2 \<le> length pts"
    unfolding svg_subpath_def by (auto split: if_split_asm)
  from assms ne po len pts l2 have
    "closed p = svg_closed s po pts"
    "points p = map (\<lambda>(x, y). (x * svg_unit_scale_to_mm lines_as_read (Some ''px''),
                                y * svg_unit_scale_to_mm lines_as_read (Some ''px'')))
                    (if svg_closed s po pts \<and> hd pts \<noteq> last pts then pts @ [hd pts] else pts)"
    unfolding svg_subpath_def Let_def by auto
  with po len pts l2 show ?thesis by auto
qed

lemma svg_subpath_props:
  assumes "svg_subpath env tol attrs s = Inr (Some p)"
  shows "2 \<le> length (points p)" and "closed p \<Longrightarrow> hd (points p) = last (points p)"
proof -
  from svg_subpath_SomeD[OF assms] obtain po pts where
    l2: "2 \<le> length pts"
    and p: "points p = map (\<lambda>(x, y). (x * svg_unit_scale_to_mm lines_as_read (Some ''px''),
                                        y * svg_unit_scale_to_mm lines_as_read (Some ''px'')))
                            (if closed p \<and> hd pts \<noteq> last pts then pts @ [hd pts] else pts)"
    by blast
  from l2 have ne: "pts \<noteq> []" by auto
  show "2 \<le> length (points p)" using p l2 by (auto split: if_splits)
  show "closed p \<Longrightarrow> hd (points p) = last (points p)"
    using p ne by (auto simp: hd_map last_map split: if_splits)
qed

lemma svg_subpath_loop_set:
  "svg_subpath_loop env tol attrs ss acc = Inr res \<Longrightarrow> p \<in> set res \<Longrightarrow>
     p \<in> set acc \<or> (\<exists>s. svg_subpath env tol attrs s = Inr (Some p))"
proof (induction ss arbitrary: acc)
  case Nil
  then show ?case by simp
next
  case (Cons s ss)
  show ?case
  proof (cases "svg_subpath env tol attrs s")
    case (Inl x)
    with Cons.prems show ?thesis by simp
  next
    case (Inr r)
    show ?thesis
    proof (cases r)
      case None
      with Inr Cons.prems Cons.IH[of acc] show ?thesis by simp
    next
      case (Some q)
      with Inr Cons.prems Cons.IH[of "acc @ [q]"] show ?thesis by auto
    qed
  qed
qed

lemma svg_element_loop_set:
  "svg_element_loop env tol as acc = Inr res \<Longrightarrow> p \<in> set res \<Longrightarrow>
     p \<in> set acc \<or> (\<exists>attrs s. svg_subpath env tol attrs s = Inr (Some p))"
proof (induction as arbitrary: acc)
  case Nil
  then show ?case by simp
next
  case (Cons a as)
  let ?attrs = "parse_attrs env a"
  let ?d = "case ?attrs ''d'' of None \<Rightarrow> [] | Some d \<Rightarrow> d"
  show ?case
  proof (cases "?d = []")
    case True
    with Cons.prems Cons.IH[of acc] show ?thesis by (simp add: Let_def)
  next
    case False
    show ?thesis
    proof (cases "split_path_by_moves (re_split env) ?d")
      case (Inl x)
      with False Cons.prems show ?thesis by (simp add: Let_def)
    next
      case parts: (Inr ss)
      show ?thesis
      proof (cases "svg_subpath_loop env tol ?attrs ss acc")
        case (Inl x)
        with False parts Cons.prems show ?thesis by (simp add: Let_def)
      next
        case (Inr acc')
        with False parts Cons.prems have "svg_element_loop env tol as acc' = Inr res"
          by (simp add: Let_def)
        from Cons.IH[OF this Cons.prems(2)] svg_subpath_loop_set[OF Inr, of p]
        show ?thesis by blast
      qed
    qed
  qed
qed

lemma load_svg_set:
  assumes "snd (load_svg env f) = Inr ps" "p \<in> set ps"
  shows "\<exists>tol attrs s. svg_subpath env tol attrs s = Inr (Some p)"
proof (cases "has_svgtools env")
  case False
  with assms show ?thesis by (simp add: load_svg_def)
next
  case True
  show ?thesis
  proof (cases "open_read env f")
    case (Inl x)
    with True assms show ?thesis by (simp add: load_svg_def)
  next
    case (Inr content)
    with True assms have
      "svg_element_loop env (svg_tolerance env) (findall_path env content) [] = Inr ps"
      by (simp add: load_svg_def)
    from svg_element_loop_set[OF this assms(2)] show ?thesis by auto
  qed
qed

lemma svg_subpath_loop_drop:
  "svg_subpath env tol attrs s = Inr None \<Longrightarrow>
     svg_subpath_loop env tol attrs (ss1 @ s # ss2) acc = svg_subpath_loop env tol attrs (ss1 @ ss2) acc"
  by (induction ss1 arbitrary: acc) (auto split: sum.splits option.splits)

lemma svg_subpath_dropped:
  "parse_path env s = Inr (Some po) \<Longrightarrow> flatten_path_points (has_svgtools env) po tol = Inr pts \<Longrightarrow>
     length pts < 2 \<Longrightarrow> svg_subpath env tol attrs s = Inr None"
  unfolding svg_subpath_def by simp

section \<open>The fallback flatteners\<close>

lemma flatten_entity_fallback:
  "raised (flattening e tol) \<noteq> None \<or> yielded (flattening e tol) = [] \<Longrightarrow> dxftype e = Inr t \<Longrightarrow>
     flatten_entity M e tol = (case fallback_body M e tol t of Inl _ \<Rightarrow> [] | Inr pts \<Rightarrow> pts)"
  by (auto simp: flatten_entity_def Let_def)

lemma map_filter_length_filter:
  "length (List.map_filter f xs) = length (filter (\<lambda>x. f x \<noteq> None) xs)"
  by (simp add: List.map_filter_def)

lemma map_filter_Nil_iff:
  "List.map_filter f xs = [] \<longleftrightarrow> (\<forall>x \<in> set xs. f x = None)"
  by (induction xs) (auto simp: List.map_filter_simps split: option.splits)





lemma flatten_arc_zero:
  assumes "dxftype e = Inr ''ARC''"
    and "raised (flattening e tol) \<noteq> None \<or> yielded (flattening e tol) = []"
    and "dxf_center e = Inr c" and "dxf_radius e = Inr r"
    and "dxf_start_angle e = Inr a" and "dxf_end_angle e = Inr a"
  shows "flatten_entity M e tol =
           replicate 13 (fst c + r * m_cos M (radians M a), snd c + r * m_sin M (radians M a))"
  using assms(3-6) unfolding flatten_entity_fallback[OF assms(2,1)] fallback_body_def
  by (simp add: arc_points_def py_range_def py_int_def Let_def map_replicate_const)

lemma arc_zero_path:
  assumes "dxftype e = Inr ''ARC''"
    and "raised (flattening e tol) \<noteq> None \<or> yielded (flattening e tol) = []"
    and "dxf_center e = Inr c" and "dxf_radius e = Inr r"
    and "dxf_start_angle e = Inr a" and "dxf_end_angle e = Inr a"
  shows "\<exists>p. dxf_entity_path M sc tol e = Some p \<and> closed p
           \<and> points p = replicate 13 ((fst c + r * m_cos M (radians M a)) * sc,
                                       (snd c + r * m_sin M (radians M a)) * sc)"
  unfolding dxf_entity_path_def flatten_arc_zero[OF assms]
  by (simp add: assms(1) dxf_classify_def scale_points_def Let_def)

lemma flatten_spline:
  assumes "dxftype e = Inr ''SPLINE''"
    and "raised (flattening e tol) \<noteq> None \<or> yielded (flattening e tol) = []"
    and "construction_tool e = Inr tool"
  shows "flatten_entity M e tol =
           (if spline_samples tool 128 \<noteq> [] then spline_samples tool 128
            else yielded (control_points e))"
  using assms(3) unfolding flatten_entity_fallback[OF assms(2,1)] fallback_body_def
  by (simp add: Let_def)

lemma spline_samples_128:
  "spline_samples tool 128 =
     List.map_filter (\<lambda>i. case evaluate tool (real i / 128) of Inl _ \<Rightarrow> None | Inr pt \<Rightarrow> Some pt)
       [0..<129]"
  by (simp add: spline_samples_def py_range_def)

lemma sum_case_None_iff:
  "(case v of Inl _ \<Rightarrow> None | Inr pt \<Rightarrow> Some pt) = None \<longleftrightarrow> (\<exists>x. v = Inl x)"
  by (cases v) auto

lemma sum_case_Some_iff:
  "(case v of Inl _ \<Rightarrow> None | Inr pt \<Rightarrow> Some pt) \<noteq> None \<longleftrightarrow> (\<exists>pt. v = Inr pt)"
  by (cases v) auto

lemma spline_samples_length:
  "length (spline_samples tool 128) =
     length (filter (\<lambda>i. \<exists>pt. evaluate tool (real i / 128) = Inr pt) [0..<129])"
  unfolding spline_samples_128 map_filter_length_filter sum_case_Some_iff ..

lemma spline_samples_empty:
  "spline_samples tool 128 = [] \<longleftrightarrow> (\<forall>i \<le> 128. \<exists>x. evaluate tool (real i / 128) = Inl x)"
proof -
  have "(\<forall>i \<in> set [0..<129]. \<exists>x. evaluate tool (real i / 128) = Inl x)
        \<longleftrightarrow> (\<forall>i \<le> 128. \<exists>x. evaluate tool (real i / 128) = Inl x)"
  proof -
    have "\<And>i::nat. (i < 129) = (i \<le> 128)" by arith
    then show ?thesis by (simp add: Ball_def)
  qed
  then show ?thesis
    unfolding spline_samples_128 map_filter_Nil_iff sum_case_None_iff .
qed

section \<open>The sample documents, loaded\<close>

lemma mm_scale: "dxf_unit_scale_to_mm 1 ''mm'' = 1"
  by code_simp

lemma in_scale: "dxf_unit_scale_to_mm 1 ''in'' = 254 / 10"
  by code_simp

lemma str_nat_7: "str_nat 7 = ''7''"
  by code_simp

lemma load_open_triangle:
  "snd (load_dxf exact_math (sample_dxf_env [open_triangle]) ''a.dxf'' ''mm'') = Inr [triangle_ring]"
  by (simp add: load_dxf_def sample_dxf_env_def mm_scale dxf_entity_path_def open_triangle_def
      polyline_entity_def bare_entity_def flatten_entity_def no_flattening_def fallback_body_def
      readable_vertices_def List.map_filter_simps dxf_classify_def close_ring_def scale_points_def
      str_nat_7 triangle_ring_def)

lemma load_inch_line:
  "snd (load_dxf exact_math (sample_dxf_env [bare_entity ''POINT'', line_entity (0, 0) (10, 0)])
          ''a.dxf'' ''in'') = Inr [inch_line]"
  by (simp add: load_dxf_def sample_dxf_env_def in_scale dxf_entity_path_def line_entity_def
      bare_entity_def flatten_entity_def no_flattening_def fallback_body_def
      dxf_classify_def scale_points_def str_nat_7 inch_line_def)

section \<open>Invariants of the emitted paths\<close>

text \<open>
  C1: every path emitted by \<open>load_dxf\<close> or \<open>load_svg\<close> whose closed field is true has
  its first point exactly equal to its last point.
\<close>

theorem closed_paths_are_rings:
  assumes "snd (load_dxf M denv f u) = Inr ps \<or> snd (load_svg senv g) = Inr ps"
    and "p \<in> set ps" and "closed p"
  shows "points p \<noteq> [] \<and> hd (points p) = last (points p)"
proof -
  from assms(1,2) have "(\<exists>e sc tol. dxf_entity_path M sc tol e = Some p)
      \<or> (\<exists>tol attrs s. svg_subpath senv tol attrs s = Inr (Some p))"
    using load_dxf_set load_svg_set by blast
  then have "2 \<le> length (points p) \<and> hd (points p) = last (points p)"
    using dxf_entity_path_props svg_subpath_props assms(3) by blast
  then show ?thesis by auto
qed

theorem closed_paths_are_rings_witness:
  "snd (load_dxf exact_math (sample_dxf_env [open_triangle]) ''a.dxf'' ''mm'') = Inr [triangle_ring]
   \<and> closed triangle_ring \<and> points triangle_ring \<noteq> []
   \<and> hd (points triangle_ring) = last (points triangle_ring)"
proof -
  have c: "closed triangle_ring" "triangle_ring \<in> set [triangle_ring]"
    by (simp_all add: triangle_ring_def)
  from closed_paths_are_rings[OF disjI1[OF load_open_triangle] c(2) c(1)] c(1) load_open_triangle
  show ?thesis by (intro conjI) simp_all
qed

text \<open>
  C2: every path emitted by \<open>load_dxf\<close> or \<open>load_svg\<close> has at least two points; an
  entity or subpath whose flattening yields fewer than two points is skipped by the loop
  body and leaves the result of the loop as if it were not in the document.
\<close>

theorem emitted_paths_have_two_points:
  "(\<forall>ps p. (snd (load_dxf M denv f u) = Inr ps \<or> snd (load_svg senv g) = Inr ps) \<and> p \<in> set ps
       \<longrightarrow> 2 \<le> length (points p))
   \<and> (length (flatten_entity M e tol) < 2 \<longrightarrow>
        dxf_entity_path M sc tol e = None
        \<and> dxf_loop M sc tol (es1 @ e # es2) acc = dxf_loop M sc tol (es1 @ es2) acc)
   \<and> (\<forall>po pts. parse_path senv s = Inr (Some po)
          \<and> flatten_path_points (has_svgtools senv) po tol' = Inr pts \<and> length pts < 2 \<longrightarrow>
        svg_subpath senv tol' attrs s = Inr None
        \<and> svg_subpath_loop senv tol' attrs (ss1 @ s # ss2) acc'
            = svg_subpath_loop senv tol' attrs (ss1 @ ss2) acc')"
proof (intro conjI allI impI)
  fix ps p
  assume a: "(snd (load_dxf M denv f u) = Inr ps \<or> snd (load_svg senv g) = Inr ps) \<and> p \<in> set ps"
  then have "(\<exists>e sc tol. dxf_entity_path M sc tol e = Some p)
      \<or> (\<exists>tol attrs s. svg_subpath senv tol attrs s = Inr (Some p))"
    using load_dxf_set load_svg_set by blast
  then show "2 \<le> length (points p)"
    using dxf_entity_path_props(1) svg_subpath_props(1) by blast
next
  assume "length (flatten_entity M e tol) < 2"
  then show "dxf_entity_path M sc tol e = None" by (rule dxf_entity_path_dropped)
  then show "dxf_loop M sc tol (es1 @ e # es2) acc = dxf_loop M sc tol (es1 @ es2) acc"
    by (rule dxf_loop_drop)
next
  fix po pts
  assume a: "parse_path senv s = Inr (Some po)
     \<and> flatten_path_points (has_svgtools senv) po tol' = Inr pts \<and> length pts < 2"
  then show n: "svg_subpath senv tol' attrs s = Inr None"
    using svg_subpath_dropped by blast
  then show "svg_subpath_loop senv tol' attrs (ss1 @ s # ss2) acc'
            = svg_subpath_loop senv tol' attrs (ss1 @ ss2) acc'"
    by (rule svg_subpath_loop_drop)
qed

theorem emitted_paths_have_two_points_witness:
  "snd (load_dxf exact_math (sample_dxf_env [bare_entity ''POINT'', line_entity (0, 0) (10, 0)])
          ''a.dxf'' ''in'') = Inr [inch_line]
   \<and> 2 \<le> length (points inch_line)
   \<and> length (flatten_entity exact_math (bare_entity ''POINT'') (1 / 4)) < 2
   \<and> dxf_entity_path exact_math 1 (1 / 4) (bare_entity ''POINT'') = None"
proof -
  have short: "length (flatten_entity exact_math (bare_entity ''POINT'') (1 / 4)) < 2"
    by (simp add: flatten_entity_def bare_entity_def no_flattening_def fallback_body_def)
  note t = emitted_paths_have_two_points[where M = exact_math
      and denv = "sample_dxf_env [bare_entity ''POINT'', line_entity (0, 0) (10, 0)]"
      and f = "''a.dxf''" and u = "''in''" and e = "bare_entity ''POINT''" and tol = "1 / 4"
      and sc = 1]
  have "2 \<le> length (points inch_line)"
    using t[THEN conjunct1, rule_format, where ps = "[inch_line]" and p = inch_line]
      load_inch_line by simp
  moreover have "dxf_entity_path exact_math 1 (1 / 4) (bare_entity ''POINT'') = None"
    using t[THEN conjunct2, THEN conjunct1] short by simp
  ultimately show ?thesis using load_inch_line short by simp
qed

section \<open>The subpath splitter\<close>

lemma split_path_by_moves_as_written:
  "split_path_by_moves re_split_moves d = (if d = [] then Inr [] else Inl ReError)"
  by (simp add: split_path_by_moves_def re_split_moves_def)

text \<open>
  C8 fails on the code: with the pattern of line 109 as it is written, the splitter
  returns no fragment for any input. It returns the empty list for the empty string and
  raises \<^verbatim>\<open>re.error\<close> for every other string, here for the command string of two
  subpaths.
\<close>

theorem split_path_by_moves_raises:
  "split_path_by_moves re_split_moves ''M0,0 L10,0 M20,0 L30,0 Z'' = Inl ReError"
  by (simp add: split_path_by_moves_as_written)

section \<open>Unit conversion, missing dependencies\<close>

lemma strip_Nil: "strip [] = []"
  by (simp add: strip_def)

lemma lower_strip_Nil: "lower (strip []) = []"
  by (simp add: strip_Nil lower_def)

lemma svg_unit_scale_token:
  "s \<noteq> [] \<Longrightarrow> svg_unit_scale_to_mm L (Some s) =
     (if lower (strip s) \<in> {''mm'', ''millimeter'', ''millimeters''} then line_51 L
      else if lower (strip s) \<in> {''inch'', ''inches'', ''in''} then 254 / 10
      else if lower (strip s) \<in> {''cm'', ''centimeter'', ''centimeters''} then 10
      else if lower (strip s) \<in> {''px'', ''pixels'', ''pixel''} then line_58 L
      else 1)"
  by (simp add: svg_unit_scale_to_mm_def Let_def)

text \<open>The tokens whose result is written on one of the lines that are not Python.\<close>

lemma unit_scale_blank_lines:
  "svg_unit_scale_to_mm L None = line_48 L
   \<and> svg_unit_scale_to_mm L (Some []) = line_48 L
   \<and> (lower (strip s) \<in> {''mm'', ''millimeter'', ''millimeters''} \<longrightarrow>
        svg_unit_scale_to_mm L (Some s) = line_51 L)
   \<and> (lower (strip s) \<in> {''px'', ''pixel'', ''pixels''} \<longrightarrow>
        svg_unit_scale_to_mm L (Some s) = line_58 L)
   \<and> dxf_unit_scale_to_mm k [] = k"
proof (cases "s = []")
  case True
  then show ?thesis
    by (simp add: svg_unit_scale_to_mm_def dxf_unit_scale_to_mm_def lower_strip_Nil)
next
  case False
  then show ?thesis
    by (auto simp: svg_unit_scale_token) (simp_all add: svg_unit_scale_to_mm_def dxf_unit_scale_to_mm_def)
qed

text \<open>
  C3, as the code has it: on the lines that are Python, the SVG module's converter maps,
  after trimming and lower-casing, in/inch(es) to 25.4, cm/centimeter(s) to 10 and every
  non-empty token outside its table to 1; the DXF module's converter, the one
  \<open>load_dxf\<close> uses, maps every non-empty token that starts with \<open>in\<close> after trimming
  and lower-casing to 25.4 and every other non-empty token to 1, centimetres and pixels
  among them. This holds whatever the lines 18, 48, 51 and 58 would return; the results
  for the empty or absent token, for millimetres and for pixels in the SVG module are
  written on those lines and are no part of the statement.
\<close>

theorem unit_scale_to_mm_tables:
  "(lower (strip s) \<in> {''in'', ''inch'', ''inches''} \<longrightarrow> svg_unit_scale_to_mm L (Some s) = 254 / 10)
   \<and> (lower (strip s) \<in> {''cm'', ''centimeter'', ''centimeters''} \<longrightarrow> svg_unit_scale_to_mm L (Some s) = 10)
   \<and> (s \<noteq> [] \<and> lower (strip s) \<notin> {''mm'', ''millimeter'', ''millimeters'', ''in'', ''inch'', ''inches'',
         ''cm'', ''centimeter'', ''centimeters'', ''px'', ''pixel'', ''pixels''}
        \<longrightarrow> svg_unit_scale_to_mm L (Some s) = 1)
   \<and> (s \<noteq> [] \<longrightarrow>
        dxf_unit_scale_to_mm k s = (if startswith (lower (strip s)) ''in'' then 254 / 10 else 1))"
proof (cases "s = []")
  case True
  then show ?thesis by (simp add: lower_strip_Nil)
next
  case False
  have dxf: "dxf_unit_scale_to_mm k s = (if startswith (lower (strip s)) ''in'' then 254 / 10 else 1)"
    using False by (simp add: dxf_unit_scale_to_mm_def Let_def)
  show ?thesis unfolding svg_unit_scale_token[OF False] using dxf False by auto
qed

theorem unit_scale_to_mm_tables_witness:
  "lower (strip '' Inch '') = ''inch''
   \<and> svg_unit_scale_to_mm \<lparr>line_48 = 0, line_51 = 0, line_58 = 0\<rparr> (Some '' Inch '') = 254 / 10
   \<and> dxf_unit_scale_to_mm 0 '' Inch '' = 254 / 10"
proof -
  have u: "lower (strip '' Inch '') = ''inch''" by code_simp
  have s: "startswith ''inch'' ''in''" by (simp add: startswith_def)
  have n: "'' Inch '' \<noteq> []" by simp
  from unit_scale_to_mm_tables[of "'' Inch ''" "\<lparr>line_48 = 0, line_51 = 0, line_58 = 0\<rparr>" 0]
  show ?thesis unfolding u using s n by simp
qed

theorem dxf_unit_scale_ignores_cm:
  "dxf_unit_scale_to_mm 0 ''cm'' = 1 \<and> dxf_unit_scale_to_mm 0 ''cm'' \<noteq> 10
   \<and> dxf_unit_scale_to_mm 0 ''px'' = 1 \<and> dxf_unit_scale_to_mm 0 ''index'' = 254 / 10"
proof -
  have a: "dxf_unit_scale_to_mm 0 ''cm'' = 1" by code_simp
  have b: "dxf_unit_scale_to_mm 0 ''px'' = 1" by code_simp
  have c: "dxf_unit_scale_to_mm 0 ''index'' = 254 / 10" by code_simp
  show ?thesis unfolding a b c by simp
qed

text \<open>
  C9: when the optional dependency was not importable the loader returns the empty list
  for every file name and opens no file; the fallback definitions of the package do the
  same; and a document that cannot be read yields the same value.
\<close>

theorem missing_dependency_yields_empty:
  "(\<not> has_ezdxf denv \<longrightarrow> load_dxf M denv f u = ([], Inr []))
   \<and> (\<not> has_svgtools senv \<longrightarrow> load_svg senv g = ([], Inr []))
   \<and> fallback_load_dxf f u = ([], Inr [])
   \<and> fallback_load_svg g = ([], Inr [])
   \<and> parsers_load_dxf False M denv f u = ([], Inr [])
   \<and> parsers_load_svg False senv g = ([], Inr [])
   \<and> (has_ezdxf denv \<and> (\<exists>x. readfile denv f = Inl x) \<longrightarrow> snd (load_dxf M denv f u) = Inr [])
   \<and> (has_svgtools senv \<and> (\<exists>x. open_read senv g = Inl x) \<longrightarrow> snd (load_svg senv g) = Inr [])"
  by (auto simp: load_dxf_def load_svg_def fallback_load_dxf_def fallback_load_svg_def
      parsers_load_dxf_def parsers_load_svg_def Let_def)

theorem missing_dependency_yields_empty_witness:
  "\<not> has_ezdxf ((sample_dxf_env [open_triangle])\<lparr>has_ezdxf := False\<rparr>)
   \<and> load_dxf exact_math ((sample_dxf_env [open_triangle])\<lparr>has_ezdxf := False\<rparr>) ''a.dxf'' ''mm''
       = ([], Inr [])
   \<and> \<not> has_svgtools ((sample_svg_env ''M0,0 L1,0 Z'' (ends_path 1 (Finite 1)))\<lparr>has_svgtools := False\<rparr>)
   \<and> load_svg ((sample_svg_env ''M0,0 L1,0 Z'' (ends_path 1 (Finite 1)))\<lparr>has_svgtools := False\<rparr>) ''a.svg''
       = ([], Inr [])"
proof -
  have a: "\<not> has_ezdxf ((sample_dxf_env [open_triangle])\<lparr>has_ezdxf := False\<rparr>)" by simp
  have b: "\<not> has_svgtools ((sample_svg_env ''M0,0 L1,0 Z'' (ends_path 1 (Finite 1)))\<lparr>has_svgtools := False\<rparr>)"
    by simp
  from missing_dependency_yields_empty[where denv = "(sample_dxf_env [open_triangle])\<lparr>has_ezdxf := False\<rparr>"
      and senv = "(sample_svg_env ''M0,0 L1,0 Z'' (ends_path 1 (Finite 1)))\<lparr>has_svgtools := False\<rparr>"
      and M = exact_math and f = "''a.dxf''" and u = "''mm''" and g = "''a.svg''"] a b
  show ?thesis by blast
qed

section \<open>Arc, circle and spline fallbacks\<close>

lemma sample_flattening:
  "raised (flattening (bare_entity t) tol) \<noteq> None \<or> yielded (flattening (bare_entity t) tol) = []"
  by (simp add: bare_entity_def no_flattening_def)

text \<open>
  C10: an ARC whose end angle equals its start angle, whose centre, radius and angles
  are readable and whose adaptive flattening is unavailable or empty, is flattened to 13
  identical points (all at the start angle); the entity is not dropped, and its path is
  closed.
\<close>

theorem zero_sweep_arc:
  assumes "dxftype e = Inr ''ARC''"
    and "raised (flattening e tol) \<noteq> None \<or> yielded (flattening e tol) = []"
    and "dxf_center e = Inr c" and "dxf_radius e = Inr r"
    and "dxf_start_angle e = Inr a" and "dxf_end_angle e = Inr a"
  shows "flatten_entity M e tol =
           replicate 13 (fst c + r * m_cos M (radians M a), snd c + r * m_sin M (radians M a))
         \<and> (\<exists>p. dxf_entity_path M sc tol e = Some p \<and> closed p
                \<and> points p = replicate 13 ((fst c + r * m_cos M (radians M a)) * sc,
                                            (snd c + r * m_sin M (radians M a)) * sc))"
  using flatten_arc_zero[OF assms] arc_zero_path[OF assms] by simp

theorem zero_sweep_arc_witness:
  "dxftype (arc_entity (0, 0) 5 90 90) = Inr ''ARC''
   \<and> dxf_start_angle (arc_entity (0, 0) 5 90 90) = Inr 90
   \<and> dxf_end_angle (arc_entity (0, 0) 5 90 90) = Inr 90
   \<and> flatten_entity exact_math (arc_entity (0, 0) 5 90 90) (1 / 4) =
        replicate 13 (fst ((0, 0) :: point) + 5 * m_cos exact_math (radians exact_math 90),
                      snd ((0, 0) :: point) + 5 * m_sin exact_math (radians exact_math 90))"
proof -
  have h: "dxftype (arc_entity (0, 0) 5 90 90) = Inr ''ARC''"
    "raised (flattening (arc_entity (0, 0) 5 90 90) (1 / 4)) \<noteq> None
       \<or> yielded (flattening (arc_entity (0, 0) 5 90 90) (1 / 4)) = []"
    "dxf_center (arc_entity (0, 0) 5 90 90) = Inr (0, 0)"
    "dxf_radius (arc_entity (0, 0) 5 90 90) = Inr 5"
    "dxf_start_angle (arc_entity (0, 0) 5 90 90) = Inr 90"
    "dxf_end_angle (arc_entity (0, 0) 5 90 90) = Inr 90"
    by (simp_all add: arc_entity_def bare_entity_def no_flattening_def)
  from zero_sweep_arc[OF h, of exact_math 1] have
    "flatten_entity exact_math (arc_entity (0, 0) 5 90 90) (1 / 4) =
        replicate 13 (fst ((0, 0) :: point) + 5 * m_cos exact_math (radians exact_math 90),
                      snd ((0, 0) :: point) + 5 * m_sin exact_math (radians exact_math 90))"
    by (rule conjunct1)
  with h(1,5,6) show ?thesis by (intro conjI)
qed





text \<open>
  C6, as the code has it: a SPLINE with a construction tool whose adaptive flattening is
  unavailable or empty is evaluated at exactly 129 parameters, \<open>i / 128\<close> for
  \<open>i = 0, \<dots>, 128\<close>; the samples that evaluate are kept in order and the others are
  skipped; the flattener returns the kept samples when there is at least one, and the
  control points read from the entity (possibly none) exactly when no sample evaluates.
\<close>

theorem spline_fallback_samples:
  assumes "dxftype e = Inr ''SPLINE''"
    and "raised (flattening e tol) \<noteq> None \<or> yielded (flattening e tol) = []"
    and "construction_tool e = Inr tool"
  shows "spline_samples tool 128 =
           List.map_filter (\<lambda>i. case evaluate tool (real i / 128) of Inl _ \<Rightarrow> None | Inr pt \<Rightarrow> Some pt)
             [0..<129]
         \<and> length (spline_samples tool 128) =
             length (filter (\<lambda>i. \<exists>pt. evaluate tool (real i / 128) = Inr pt) [0..<129])
         \<and> (spline_samples tool 128 = [] \<longleftrightarrow> (\<forall>i \<le> 128. \<exists>x. evaluate tool (real i / 128) = Inl x))
         \<and> flatten_entity M e tol =
             (if spline_samples tool 128 \<noteq> [] then spline_samples tool 128
              else yielded (control_points e))"
  using spline_samples_128[of tool] spline_samples_length[of tool] spline_samples_empty[of tool]
    flatten_spline[OF assms, of M]
  by blast

lemma sample_spline:
  "dxftype (spline_entity tool cps) = Inr ''SPLINE''"
  "raised (flattening (spline_entity tool cps) tol) \<noteq> None
     \<or> yielded (flattening (spline_entity tool cps) tol) = []"
  "construction_tool (spline_entity tool cps) = Inr tool"
  "yielded (control_points (spline_entity tool cps)) = cps"
  by (simp_all add: spline_entity_def bare_entity_def no_flattening_def)

theorem spline_fallback_samples_witness:
  "dxftype (spline_entity dead_tool [(0, 0), (1, 1)]) = Inr ''SPLINE''
   \<and> construction_tool (spline_entity dead_tool [(0, 0), (1, 1)]) = Inr dead_tool
   \<and> spline_samples dead_tool 128 = []
   \<and> flatten_entity exact_math (spline_entity dead_tool [(0, 0), (1, 1)]) (1 / 4) = [(0, 0), (1, 1)]"
proof -
  have h: "dxftype (spline_entity dead_tool [(0, 0), (1, 1)]) = Inr ''SPLINE''"
    "raised (flattening (spline_entity dead_tool [(0, 0), (1, 1)]) (1 / 4)) \<noteq> None
       \<or> yielded (flattening (spline_entity dead_tool [(0, 0), (1, 1)]) (1 / 4)) = []"
    "construction_tool (spline_entity dead_tool [(0, 0), (1, 1)]) = Inr dead_tool"
    by (simp_all add: spline_entity_def bare_entity_def no_flattening_def)
  note t = spline_fallback_samples[OF h, of exact_math]
  have d: "\<forall>i \<le> 128. \<exists>x. evaluate dead_tool (real i / 128) = Inl x"
    by (simp add: dead_tool_def)
  with t have e: "spline_samples dead_tool 128 = []" by blast
  with t have "flatten_entity exact_math (spline_entity dead_tool [(0, 0), (1, 1)]) (1 / 4)
      = yielded (control_points (spline_entity dead_tool [(0, 0), (1, 1)]))" by simp
  then have "flatten_entity exact_math (spline_entity dead_tool [(0, 0), (1, 1)]) (1 / 4)
      = [(0, 0), (1, 1)]" by (simp add: sample_spline)
  with e h(1,3) show ?thesis by (intro conjI)
qed

theorem spline_fallback_has_129_samples:
  "length (flatten_entity exact_math (spline_entity ramp_tool []) (1 / 4)) = 129
   \<and> length (flatten_entity exact_math (spline_entity ramp_tool []) (1 / 4)) \<noteq> 128"
proof -
  have h: "dxftype (spline_entity ramp_tool []) = Inr ''SPLINE''"
    "raised (flattening (spline_entity ramp_tool []) (1 / 4)) \<noteq> None
       \<or> yielded (flattening (spline_entity ramp_tool []) (1 / 4)) = []"
    "construction_tool (spline_entity ramp_tool []) = Inr ramp_tool"
    by (simp_all add: spline_entity_def bare_entity_def no_flattening_def)
  have ev: "\<exists>pt. evaluate ramp_tool x = Inr pt" for x
  proof -
    have "evaluate ramp_tool x = Inr (x, 0)" by (simp add: ramp_tool_def)
    then show ?thesis by blast
  qed
  have "filter (\<lambda>i. \<exists>pt. evaluate ramp_tool (real i / 128) = Inr pt) [0..<129] = [0..<129]"
  proof (rule filter_True)
    show "\<forall>x \<in> set [0..<129]. \<exists>pt. evaluate ramp_tool (real x / 128) = Inr pt"
      using ev by blast
  qed
  then have l: "length (spline_samples ramp_tool 128) = 129"
    unfolding spline_samples_length by simp
  then have "spline_samples ramp_tool 128 \<noteq> []" by auto
  then have "flatten_entity exact_math (spline_entity ramp_tool []) (1 / 4) = spline_samples ramp_tool 128"
    using flatten_spline[OF h, of exact_math] by simp
  with l show ?thesis by simp
qed

section \<open>The closed flag of an SVG subpath\<close>








section \<open>Exceptions\<close>

lemma load_dxf_never_raises: "\<exists>ps. load_dxf M env f u = ([], Inr ps) \<or> load_dxf M env f u = ([f], Inr ps)"
  by (cases "readfile env f") (auto simp: load_dxf_def Let_def)

lemma sample_svg_attrs:
  "parse_attrs (sample_svg_env d pth) (path_attribute d) ''d'' = Some d"
  by (simp add: parse_attrs_def sample_svg_env_def)

text \<open>
  C4 fails on the SVG loader: \<open>load_svg\<close> calls the splitter outside every
  \<^verbatim>\<open>try\<close> (line 171), and the splitter, with the pattern of line 109 as it is written,
  raises \<^verbatim>\<open>re.error\<close> on every non-empty \<^verbatim>\<open>d\<close> attribute. For the file
  \<^verbatim>\<open><path d="M0,0 L10,0" >\<close> the exception leaves \<open>load_svg\<close>.
\<close>

theorem load_svg_re_error_escapes:
  "load_svg (sample_svg_env ''M0,0 L10,0'' (ends_path 10 (Finite 10))) ''a.svg''
     = ([''a.svg''], Inl ReError)"
proof -
  have o: "open_read (sample_svg_env ''M0,0 L10,0'' (ends_path 10 (Finite 10))) ''a.svg''
      = Inr (path_element ''M0,0 L10,0'')"
    "findall_path (sample_svg_env ''M0,0 L10,0'' (ends_path 10 (Finite 10))) (path_element ''M0,0 L10,0'')
      = [path_attribute ''M0,0 L10,0'']"
    "has_svgtools (sample_svg_env ''M0,0 L10,0'' (ends_path 10 (Finite 10)))"
    "re_split (sample_svg_env ''M0,0 L10,0'' (ends_path 10 (Finite 10))) = re_split_moves"
    by (simp_all add: sample_svg_env_def)
  show ?thesis
    by (simp add: load_svg_def o sample_svg_attrs split_path_by_moves_as_written Let_def)
qed

end
